theory Spec2Isabelle
  imports Main "HOL-Library.Word"
begin

section \<open>Promises, thrown values and the error codec\<close>

text \<open>
  The daemon is asynchronous TypeScript. An awaited promise is modelled by the way it
  ends: it fulfils with a value, it rejects with a thrown value, or it never settles
  (the caller stays suspended at its \<^verbatim>\<open>await\<close> for ever).
\<close>

datatype ('a, 'e) outcome = Fulfilled 'a | Rejected 'e | Pending

text \<open>
  Opaque JSON data (the \<^verbatim>\<open>unknown\<close> payloads) is carried as its JSON text;
  \<open>None\<close> stands for \<^verbatim>\<open>undefined\<close>, which \<^verbatim>\<open>JSON.stringify\<close> drops.
\<close>

type_synonym json = string

text \<open>
  An \<^verbatim>\<open>Error\<close> object: its class (what \<^verbatim>\<open>instanceof\<close> sees), its message and
  its stack. \<open>ErrorSubclass\<close> is any class below \<^verbatim>\<open>Error\<close> that is not a
  \<^verbatim>\<open>UsageError\<close> (a \<^verbatim>\<open>TypeError\<close>, say); \<open>UsageErrorSubclass\<close> is any class
  below clipanion's \<^verbatim>\<open>UsageError\<close>.
\<close>

datatype error_class = Error | UsageError | ErrorSubclass | UsageErrorSubclass

record js_error =
  klass :: error_class
  message :: string
  stack :: "string option"

definition instanceof_UsageError :: "js_error \<Rightarrow> bool" where
  "instanceof_UsageError e = (klass e = UsageError \<or> klass e = UsageErrorSubclass)"

text \<open>
  \<^verbatim>\<open>new ErrorKlass(message)\<close>. The first argument is the stack trace the runtime
  captures at the construction site; the program has no say in it.
\<close>

definition new_Error :: "string option \<Rightarrow> error_class \<Rightarrow> string \<Rightarrow> js_error" where
  "new_Error captured k msg = \<lparr>klass = k, message = msg, stack = captured\<rparr>"

text \<open>
  What a \<^verbatim>\<open>catch\<close> receives (\<^verbatim>\<open>data: unknown\<close>): an \<^verbatim>\<open>Error\<close> object; or a value
  that is no \<^verbatim>\<open>Error\<close>, given by what \<^verbatim>\<open>JSON.stringify\<close> does on it. \<open>NotErr j\<close> is
  a value it accepts, \<open>j\<close> being the text the template literal makes of the result
  (\<^verbatim>\<open>undefined\<close> for a function or \<^verbatim>\<open>undefined\<close>). \<open>Unstringifiable t\<close> is a value on
  which \<^verbatim>\<open>JSON.stringify\<close> throws \<open>t\<close>: a \<^verbatim>\<open>TypeError\<close> for a \<^verbatim>\<open>BigInt\<close> or a cyclic
  object, or whatever a \<^verbatim>\<open>toJSON\<close> method throws.
\<close>

datatype thrown = Err js_error | NotErr json | Unstringifiable thrown

record SerializedError =
  ser_message :: string
  ser_stack :: "string option"
  isUsage :: bool

text \<open>
  \<^verbatim>\<open>errorToSerializable\<close> has no \<^verbatim>\<open>try\<close>: where \<^verbatim>\<open>JSON.stringify\<close> throws, it
  throws the same value (\<open>Inl\<close>) and makes no record.
\<close>

definition errorToSerializable :: "string option \<Rightarrow> thrown \<Rightarrow> thrown + SerializedError" where
  "errorToSerializable captured data =
     (case (case data of
              Err e \<Rightarrow> Inr e
            | NotErr j \<Rightarrow> Inr (new_Error captured Error (''Not an error: '' @ j))
            | Unstringifiable t \<Rightarrow> Inl t) of
        Inl t \<Rightarrow> Inl t
      | Inr error \<Rightarrow>
          Inr \<lparr>ser_message = message error,
               ser_stack = stack error,
               isUsage = instanceof_UsageError error\<rparr>)"

definition serializableToError :: "string option \<Rightarrow> SerializedError \<Rightarrow> js_error" where
  "serializableToError captured data =
     (let ErrorKlass = (if isUsage data then UsageError else Error);
          error = new_Error captured ErrorKlass (ser_message data)
      in error\<lparr>stack := ser_stack data\<rparr>)"

definition startsWith :: "string \<Rightarrow> string \<Rightarrow> bool" where
  "startsWith s p = (take (length p) s = p)"

section \<open>JSON values and loose equality\<close>

text \<open>
  A value as \<^verbatim>\<open>JSON.parse\<close> returns it. A number is kept as its literal in the frame.
  An object is its list of keys and values; all it inherits is \<^verbatim>\<open>Object.prototype\<close>,
  an array \<^verbatim>\<open>Array.prototype\<close>, and no value in it is callable.
\<close>

datatype jv =
    JNull
  | JBool bool
  | JNum string
  | JStr string
  | JArr "jv list"
  | JObj "(string \<times> jv) list"

text \<open>
  The numeric coercions of the language are taken as given. A \<open>number\<close> is the value
  of a double, the two zeros counted as one (\<^verbatim>\<open>==\<close> and \<^verbatim>\<open>toString\<close> do not tell them
  apart). \<open>toNumber\<close> is \<^verbatim>\<open>StringToNumber\<close>, \<open>None\<close> being \<^verbatim>\<open>NaN\<close>; on a JSON number
  literal it gives the value \<^verbatim>\<open>JSON.parse\<close> gives. \<open>numberToString\<close> is
  \<^verbatim>\<open>Number::toString\<close>.
\<close>

typedecl number

record numerics =
  toNumber :: "string \<Rightarrow> number option"
  numberToString :: "number \<Rightarrow> string"

text \<open>
  \<^verbatim>\<open>ToString\<close> of a parsed value, \<open>None\<close> where it throws a \<^verbatim>\<open>TypeError\<close>. An array
  prints as \<^verbatim>\<open>join(",")\<close> of its elements, \<^verbatim>\<open>null\<close> elements printing as the empty
  string. An object prints through \<^verbatim>\<open>Object.prototype.toString\<close>, unless it has a
  key \<^verbatim>\<open>toString\<close> of its own: that value is not callable, \<^verbatim>\<open>valueOf\<close> gives no
  primitive, and the conversion throws. \<^verbatim>\<open>ToPrimitive\<close> of an array or an object
  ends in the same way.
\<close>

fun ToString :: "numerics \<Rightarrow> jv \<Rightarrow> string option"
  and join :: "numerics \<Rightarrow> jv list \<Rightarrow> string option" where
  "ToString N JNull = Some ''null''"
| "ToString N (JBool b) = Some (if b then ''true'' else ''false'')"
| "ToString N (JNum lit) =
     Some (case toNumber N lit of Some n \<Rightarrow> numberToString N n | None \<Rightarrow> ''NaN'')"
| "ToString N (JStr s) = Some s"
| "ToString N (JArr xs) = join N xs"
| "ToString N (JObj kvs) =
     (if ''toString'' \<in> fst ` set kvs then None else Some ''[object Object]'')"
| "join N [] = Some []"
| "join N [x] = (if x = JNull then Some [] else ToString N x)"
| "join N (x # y # ys) =
     (case (if x = JNull then Some [] else ToString N x) of
        None \<Rightarrow> None
      | Some a \<Rightarrow>
          (case join N (y # ys) of
             None \<Rightarrow> None
           | Some rest \<Rightarrow> Some (a @ '','' @ rest)))"

text \<open>
  \<^verbatim>\<open>x == y\<close> for \<open>x\<close> a field of a parsed frame (\<open>None\<close> when the key is absent, which
  reads as \<^verbatim>\<open>undefined\<close>) and \<open>y\<close> a string or \<^verbatim>\<open>undefined\<close>; the result is \<open>None\<close>
  where the comparison throws. \<^verbatim>\<open>null\<close> and \<^verbatim>\<open>undefined\<close> equal each other and
  nothing else. A number is compared with \<^verbatim>\<open>ToNumber\<close> of the string; a boolean is
  first made the number 1 or 0; an array or an object is first made a primitive,
  here a string.
\<close>

definition number_equals :: "numerics \<Rightarrow> string \<Rightarrow> string \<Rightarrow> bool" where
  "number_equals N lit s =
     (case toNumber N lit of None \<Rightarrow> False | Some n \<Rightarrow> toNumber N s = Some n)"

fun IsLooselyEqual :: "numerics \<Rightarrow> jv option \<Rightarrow> string option \<Rightarrow> bool option" where
  "IsLooselyEqual N None y = Some (y = None)"
| "IsLooselyEqual N (Some JNull) y = Some (y = None)"
| "IsLooselyEqual N (Some x) None = Some False"
| "IsLooselyEqual N (Some (JStr s')) (Some s) = Some (s' = s)"
| "IsLooselyEqual N (Some (JNum lit)) (Some s) = Some (number_equals N lit s)"
| "IsLooselyEqual N (Some (JBool b)) (Some s) =
     Some (number_equals N (if b then ''1'' else ''0'') s)"
| "IsLooselyEqual N (Some x) (Some s) =
     (case ToString N x of None \<Rightarrow> None | Some p \<Rightarrow> Some (p = s))"

section \<open>The wire protocol\<close>

text \<open>
  Client to worker. \<open>Cli args version context\<close>: \<open>version\<close> is whatever the frame
  holds under that key, \<open>None\<close> when it holds nothing (the client's wrapper sends its
  \<^verbatim>\<open>cli.binaryVersion\<close>, a string or \<^verbatim>\<open>undefined\<close>, and \<^verbatim>\<open>JSON.stringify\<close> drops the
  latter); \<open>args\<close> and \<open>context\<close> go to \<^verbatim>\<open>cli.run\<close> as they are and are carried as
  JSON text. \<open>OtherTag\<close> is any JSON value but \<^verbatim>\<open>null\<close> whose \<^verbatim>\<open>type\<close> is none of the
  four tags.
\<close>

datatype client_msg =
    Message nat "json option"
  | Status
  | Stop
  | Cli json "jv option" json
  | OtherTag

text \<open>Worker to client: what the worker's \<^verbatim>\<open>send\<close> is called with.\<close>

datatype server_msg =
    MessageYield nat "json option"
  | MessageResolve nat "json option"
  | MessageReject nat SerializedError
  | StatusReply string
  | Stdout string
  | Exit int
  | ErrorMsg SerializedError

section \<open>The client process: connecting and spawning\<close>

text \<open>
  What the client process does to the outside, in program order: a connection attempt
  (\<^verbatim>\<open>new WebSocket\<close>), a \<^verbatim>\<open>fork\<close> of a worker, a frame sent on a socket, a socket
  closed, the listening server closed.
\<close>

datatype event = Connect | Fork | WsSend nat client_msg | WsClose nat | WssClose nat

text \<open>
  The outside world as an oracle. \<open>attempts\<close>: how each coming connection attempt ends
  (\<^verbatim>\<open>open\<close> with a socket, \<^verbatim>\<open>error\<close>, or neither). \<open>forks\<close>: how each coming fork
  ends (the child's handshake message, the child's \<^verbatim>\<open>error\<close> event, or neither).
  An exhausted list means nothing happens any more. \<open>captured\<close> is the stack trace an
  \<^verbatim>\<open>Error\<close> constructed in this process gets. \<open>trace\<close> logs the events.
\<close>

record world =
  attempts :: "(nat, js_error) outcome list"
  forks :: "(unit, js_error) outcome list"
  captured :: "string option"
  trace :: "event list"

definition emit :: "event list \<Rightarrow> world \<Rightarrow> world" where
  "emit evs w = w\<lparr>trace := trace w @ evs\<rparr>"

text \<open>
  \<^verbatim>\<open>Daemon.request\<close>: one connection attempt; the error is rethrown as it is. On
  success the socket gets the \<^verbatim>\<open>message\<close> listener \<open>request_on_message\<close> below.
\<close>

definition request :: "world \<Rightarrow> (nat, js_error) outcome \<times> world" where
  "request w =
     (case attempts w of
        [] \<Rightarrow> (Pending, emit [Connect] w)
      | r # rs \<Rightarrow> (r, emit [Connect] (w\<lparr>attempts := rs\<rparr>)))"

text \<open>\<^verbatim>\<open>Daemon.spawn\<close>: fork a detached worker and wait for its handshake.\<close>

definition spawn :: "world \<Rightarrow> (unit, js_error) outcome \<times> world" where
  "spawn w =
     (case forks w of
        [] \<Rightarrow> (Pending, emit [Fork] w)
      | r # rs \<Rightarrow> (r, emit [Fork] (w\<lparr>forks := rs\<rparr>)))"

text \<open>\<^verbatim>\<open>Daemon.open\<close> (\<open>open\<close> is reserved in Isabelle).\<close>

definition open_ws :: "bool \<Rightarrow> world \<Rightarrow> (nat, js_error) outcome \<times> world" where
  "open_ws autoSpawn w =
     (case request w of
        (Fulfilled ws, w1) \<Rightarrow> (Fulfilled ws, w1)
      | (Pending, w1) \<Rightarrow> (Pending, w1)
      | (Rejected err, w1) \<Rightarrow>
          if startsWith (message err) ''connect ECONNREFUSED'' \<and> autoSpawn then
            (case spawn w1 of
               (Fulfilled u, w2) \<Rightarrow> request w2
             | (Rejected err2, w2) \<Rightarrow> (Rejected err2, w2)
             | (Pending, w2) \<Rightarrow> (Pending, w2))
          else (Rejected err, w1))"

text \<open>
  \<^verbatim>\<open>Daemon.status\<close>. \<open>replies\<close> are the frames that reach the socket before the
  3000 ms timer fires, in order; the first \<^verbatim>\<open>status\<close> frame among them resolves the
  promise, and without one the timer rejects it. The frames are what a worker sends,
  \<^verbatim>\<open>JSON.stringify\<close> of a record, so \<^verbatim>\<open>JSON.parse\<close> succeeds on them. \<open>None\<close> is the
  \<^verbatim>\<open>null\<close> result.
\<close>

fun first_status :: "server_msg list \<Rightarrow> string option" where
  "first_status [] = None"
| "first_status (StatusReply v # ms) = Some v"
| "first_status (m # ms) = first_status ms"

definition status :: "server_msg list \<Rightarrow> world \<Rightarrow> (string option, js_error) outcome \<times> world" where
  "status replies w =
     (case open_ws False w of
        (Rejected err, w1) \<Rightarrow>
          if startsWith (message err) ''connect ECONNREFUSED'' then (Fulfilled None, w1)
          else (Rejected err, w1)
      | (Pending, w1) \<Rightarrow> (Pending, w1)
      | (Fulfilled ws, w1) \<Rightarrow>
          (let w2 = emit [WsSend ws Status] w1;
               r = (case first_status replies of
                      Some v \<Rightarrow> Fulfilled (Some v)
                    | None \<Rightarrow> Rejected (new_Error (captured w2) Error ''Timeout reached''))
           in (r, emit [WsClose ws] w2)))"

text \<open>
  \<^verbatim>\<open>Daemon.stop\<close> and \<^verbatim>\<open>Daemon.start\<close>. \<open>isInsideDaemon\<close> is the module constant
  read from the environment; \<open>wss\<close> is the listening server of a worker, if it has one.
\<close>

record daemon =
  wss :: "nat option"
  rebootInProgress :: bool

definition wss_close :: "daemon \<Rightarrow> world \<Rightarrow> world" where
  "wss_close d w = (case wss d of None \<Rightarrow> w | Some srv \<Rightarrow> emit [WssClose srv] w)"

definition stop :: "bool \<Rightarrow> daemon \<Rightarrow> world \<Rightarrow> (unit, js_error) outcome \<times> world" where
  "stop isInsideDaemon d w =
     (if isInsideDaemon then (Fulfilled (), wss_close d w)
      else (case open_ws False w of
              (Rejected err, w1) \<Rightarrow>
                if startsWith (message err) ''connect ECONNREFUSED'' then (Fulfilled (), w1)
                else (Rejected err, w1)
            | (Pending, w1) \<Rightarrow> (Pending, w1)
            | (Fulfilled ws, w1) \<Rightarrow> (Fulfilled (), emit [WsSend ws Stop, WsClose ws] w1)))"

definition start :: "bool \<Rightarrow> world \<Rightarrow> (unit, js_error) outcome \<times> world" where
  "start isInsideDaemon w =
     (if isInsideDaemon then
        (Rejected (new_Error (captured w) Error
           ''Cannot call .start() from within the daemon process''), w)
      else (case open_ws True w of
              (Fulfilled ws, w1) \<Rightarrow> (Fulfilled (), emit [WsClose ws] w1)
            | (Rejected err, w1) \<Rightarrow> (Rejected err, w1)
            | (Pending, w1) \<Rightarrow> (Pending, w1)))"

text \<open>
  \<^verbatim>\<open>Daemon.restart\<close>. Inside the worker the guard is written first, then the server
  is closed, then \<^verbatim>\<open>spawn\<close> is called and awaited; nothing follows the await. The
  daemon record returned is the one the call leaves behind, also when the awaited
  promise never settles.
\<close>

definition restart :: "bool \<Rightarrow> daemon \<Rightarrow> world \<Rightarrow> (unit, js_error) outcome \<times> daemon \<times> world" where
  "restart isInsideDaemon d w =
     (if isInsideDaemon then
        (if \<not> rebootInProgress d then
           (let d1 = d\<lparr>rebootInProgress := True\<rparr>;
                w1 = wss_close d1 w;
                (r, w2) = spawn w1
            in (r, d1, w2))
         else (Fulfilled (), d, w))
      else (case stop isInsideDaemon d w of
              (Fulfilled u, w1) \<Rightarrow>
                (case start isInsideDaemon w1 of (r, w2) \<Rightarrow> (r, d, w2))
            | (Rejected err, w1) \<Rightarrow> (Rejected err, d, w1)
            | (Pending, w1) \<Rightarrow> (Pending, d, w1)))"

text \<open>A run of \<^verbatim>\<open>restart()\<close> calls in one process, each on the state the last one left.\<close>

fun restarts :: "nat \<Rightarrow> bool \<Rightarrow> daemon \<Rightarrow> world \<Rightarrow> daemon \<times> world" where
  "restarts 0 isInsideDaemon d w = (d, w)"
| "restarts (Suc n) isInsideDaemon d w =
     (case restart isInsideDaemon d w of (r, d1, w1) \<Rightarrow> restarts n isInsideDaemon d1 w1)"

section \<open>The client process: the table of pending requests\<close>

text \<open>
  Callbacks are closures; the model names each by a number. An awaited callback
  (\<^verbatim>\<open>() => Promise<void>\<close>) comes with the way the promise it returns ends.
\<close>

record callback =
  cb_id :: nat
  ends :: "(unit, thrown) outcome"

text \<open>
  An entry of \<^verbatim>\<open>Daemon.messages\<close>. \<open>onMessage\<close> is a \<^verbatim>\<open>Set\<close> of awaited callbacks,
  kept in insertion order; \<open>resolve\<close> and \<open>reject\<close> are the two functions of the
  promise \<^verbatim>\<open>done\<close>.
\<close>

record entry =
  onMessage :: "callback list"
  resolve :: nat
  reject :: nat

type_synonym messages = "nat \<rightharpoonup> entry"

text \<open>
  The id loop of \<^verbatim>\<open>Daemon.send\<close>:
  \<^verbatim>\<open>do { id = Math.floor(Math.random() * 0x100000000) } while (this.messages.has(id))\<close>.
  \<open>rng k\<close> is the \<open>k\<close>-th draw, a whole number below \<open>2 ^ 32\<close>. The loop has no bound,
  so not returning is the value \<open>None\<close>.
\<close>

partial_function (option) allocate :: "messages \<Rightarrow> (nat \<Rightarrow> 32 word) \<Rightarrow> nat \<Rightarrow> nat option" where
  "allocate m rng k =
     (let rid = unat (rng k)
      in if m rid \<noteq> None then allocate m rng (Suc k) else Some rid)"

text \<open>
  What the listener of the client does, in program order: an entry deleted from the
  table, a stream callback called, the \<^verbatim>\<open>resolve\<close> or the \<^verbatim>\<open>reject\<close> of an entry
  called, the listener ended by an awaited callback that rejected.
\<close>

datatype action =
    MapDelete nat
  | CallStream nat "json option"
  | CallResolve entry "json option"
  | CallReject entry js_error
  | ListenerRejected thrown

text \<open>\<^verbatim>\<open>for (const fn of message.onMessage) await fn(payload.data)\<close>.\<close>

fun run_stream :: "json option \<Rightarrow> callback list \<Rightarrow> action list" where
  "run_stream data [] = []"
| "run_stream data (fn # fns) =
     CallStream (cb_id fn) data
     # (case ends fn of
          Fulfilled u \<Rightarrow> run_stream data fns
        | Rejected e \<Rightarrow> [ListenerRejected e]
        | Pending \<Rightarrow> [])"

text \<open>
  The \<^verbatim>\<open>then\<close> callback of \<^verbatim>\<open>Daemon.send\<close>, run once the socket \<open>ws\<close> is open:
  \<^verbatim>\<open>this.messages.set(id, {onMessage, resolve, reject}); ws.send(...)\<close>.
\<close>

definition send_then :: "nat \<Rightarrow> nat \<Rightarrow> entry \<Rightarrow> json option \<Rightarrow> messages \<Rightarrow> messages \<times> event list" where
  "send_then ws rid e data m = (m(rid \<mapsto> e), [WsSend ws (Message rid data)])"

text \<open>
  The \<^verbatim>\<open>message\<close> listener that \<^verbatim>\<open>Daemon.request\<close> puts on every client socket.
  \<open>cap\<close> is the stack trace captured when the decoded error is constructed. The
  listener suspends only in the \<^verbatim>\<open>message/yield\<close> case, which does not write the
  table; the other two cases run from \<^verbatim>\<open>get\<close> to the callback without an
  \<^verbatim>\<open>await\<close>. So the table changes frame by frame, in the order the frames arrive.
\<close>

definition request_on_message :: "string option \<Rightarrow> messages \<Rightarrow> server_msg \<Rightarrow> messages \<times> action list" where
  "request_on_message cap m payload =
     (case payload of
        MessageYield rid data \<Rightarrow>
          (case m rid of
             None \<Rightarrow> (m, [])
           | Some msg \<Rightarrow> (m, run_stream data (onMessage msg)))
      | MessageResolve rid data \<Rightarrow>
          (case m rid of
             None \<Rightarrow> (m, [])
           | Some msg \<Rightarrow> (m(rid := None), [MapDelete rid, CallResolve msg data]))
      | MessageReject rid err \<Rightarrow>
          (case m rid of
             None \<Rightarrow> (m, [])
           | Some msg \<Rightarrow>
               (m(rid := None), [MapDelete rid, CallReject msg (serializableToError cap err)]))
      | _ \<Rightarrow> (m, []))"

text \<open>
  The events of an open client socket. \<^verbatim>\<open>Daemon.request\<close> registers three listeners:
  \<^verbatim>\<open>error\<close> (it rejects the connection promise, which has settled by now),
  \<^verbatim>\<open>open\<close> and \<^verbatim>\<open>message\<close>; \<^verbatim>\<open>Daemon.send\<close> adds none. A \<^verbatim>\<open>close\<close> event has no
  listener.
\<close>

datatype ws_event = OnMessage server_msg | OnError js_error | OnClose

definition client_ws_event :: "string option \<Rightarrow> messages \<Rightarrow> ws_event \<Rightarrow> messages \<times> action list" where
  "client_ws_event cap m ev =
     (case ev of
        OnMessage payload \<Rightarrow> request_on_message cap m payload
      | OnError err \<Rightarrow> (m, [])
      | OnClose \<Rightarrow> (m, []))"

text \<open>
  A history of the table: registrations and socket events, one after the other. The
  actions of one event are logged together; in the program a later frame may run
  while a \<^verbatim>\<open>message/yield\<close> listener is suspended between two stream callbacks, so
  the \<open>CallStream\<close> actions of a frame may in fact come after actions of later frames.
  The table and the other actions are as logged.
\<close>

datatype table_op = Register nat nat entry "json option" | Event ws_event

fun run_ops :: "string option \<Rightarrow> messages \<Rightarrow> table_op list \<Rightarrow> messages \<times> action list" where
  "run_ops cap m [] = (m, [])"
| "run_ops cap m (Register ws rid e data # ops) =
     run_ops cap (fst (send_then ws rid e data m)) ops"
| "run_ops cap m (Event ev # ops) =
     (case client_ws_event cap m ev of
        (m1, acts) \<Rightarrow> (case run_ops cap m1 ops of (m2, acts2) \<Rightarrow> (m2, acts @ acts2)))"

fun registered :: "table_op list \<Rightarrow> entry list" where
  "registered [] = []"
| "registered (Register ws rid e data # ops) = e # registered ops"
| "registered (Event ev # ops) = registered ops"

fun settles :: "entry \<Rightarrow> action \<Rightarrow> bool" where
  "settles e (CallResolve e' data) = (e' = e)"
| "settles e (CallReject e' err) = (e' = e)"
| "settles e a = False"

section \<open>The worker process: sessions\<close>

text \<open>
  The parts of clipanion's \<^verbatim>\<open>Cli\<close> the worker uses: the declared binary version
  (a string or \<^verbatim>\<open>undefined\<close>) and \<^verbatim>\<open>cli.run\<close>, given by what a run does: the chunks
  it writes to its \<^verbatim>\<open>stdout\<close> (already in base64) and how its promise ends.
\<close>

record command_run =
  written :: "string list"
  exit_code :: "(int, thrown) outcome"

record cli =
  binaryVersion :: "string option"
  run :: "json \<Rightarrow> json \<Rightarrow> command_run"

text \<open>
  A call of the custom handler \<^verbatim>\<open>Daemon.onMessage\<close>: the values it passes to
  \<^verbatim>\<open>sendClientMessage\<close> and how its promise ends. The value it returns is given by
  what \<^verbatim>\<open>JSON.stringify\<close> does on it when the reply is sent: it gives a text, or it
  throws.
\<close>

datatype returned = Returned "json option" | ReturnedUnstringifiable thrown

record handler_run =
  yields :: "json option list"
  result :: "(returned, thrown) outcome"

text \<open>
  An inbound frame, by what \<^verbatim>\<open>JSON.parse\<close> makes of it: it throws, it returns
  \<^verbatim>\<open>null\<close> (reading \<^verbatim>\<open>payload.type\<close> then throws outside the \<^verbatim>\<open>try\<close>), or it
  returns a value the \<^verbatim>\<open>switch\<close> looks at.
\<close>

datatype frame = Malformed | JsonNull | Json client_msg

text \<open>What the \<^verbatim>\<open>message\<close> listener of a session does, in program order.\<close>

datatype effect =
    Send server_msg
  | CloseWs
  | CloseWss
  | CallOnMessage "json option"
  | CliRun json json
  | UnhandledRejection

text \<open>
  A template literal applies \<^verbatim>\<open>ToString\<close>: \<^verbatim>\<open>undefined\<close> prints by its name, and
  the conversion of a parsed value may throw (\<open>None\<close>).
\<close>

definition template :: "string option \<Rightarrow> string" where
  "template v = (case v of None \<Rightarrow> ''undefined'' | Some s \<Rightarrow> s)"

definition template_value :: "numerics \<Rightarrow> jv option \<Rightarrow> string option" where
  "template_value N v = (case v of None \<Rightarrow> Some ''undefined'' | Some x \<Rightarrow> ToString N x)"

text \<open>
  \<^verbatim>\<open>sendError\<close>. Nothing in the listener catches what \<open>errorToSerializable\<close> throws:
  the throw ends the listener, or the callback of \<^verbatim>\<open>cli.run\<close>, as an unhandled
  rejection, and nothing is sent.
\<close>

definition sendError :: "string option \<Rightarrow> thrown \<Rightarrow> effect list" where
  "sendError cap error =
     (case errorToSerializable cap error of
        Inl t \<Rightarrow> [UnhandledRejection]
      | Inr serialized \<Rightarrow> [Send (ErrorMsg serialized)])"

text \<open>
  The \<^verbatim>\<open>message\<close> listener of \<^verbatim>\<open>Daemon.runExit\<close>. \<open>handler\<close> is \<^verbatim>\<open>this.onMessage\<close>,
  which may be unset. The version test is \<^verbatim>\<open>payload.version != cli.binaryVersion\<close>,
  the loose inequality of the language on whatever the frame holds; it may throw, and
  so may the template literal of the mismatch message.
\<close>

definition session_on_message ::
    "string option \<Rightarrow> numerics \<Rightarrow> cli \<Rightarrow> (json option \<Rightarrow> handler_run) option \<Rightarrow> frame
       \<Rightarrow> effect list" where
  "session_on_message cap N c handler fr =
     (case fr of
        Malformed \<Rightarrow> [CloseWs]
      | JsonNull \<Rightarrow> [UnhandledRejection]
      | Json payload \<Rightarrow>
          (case payload of
             Message rid data \<Rightarrow>
               (case handler of
                  None \<Rightarrow> [Send (MessageResolve rid None)]
                | Some h \<Rightarrow>
                    CallOnMessage data
                    # map (\<lambda>v. Send (MessageYield rid v)) (yields (h data))
                    @ (case result (h data) of
                         Fulfilled (Returned res) \<Rightarrow> [Send (MessageResolve rid res)]
                       | Fulfilled (ReturnedUnstringifiable t) \<Rightarrow> [UnhandledRejection]
                       | Rejected error \<Rightarrow>
                           (case errorToSerializable cap error of
                              Inl t \<Rightarrow> [UnhandledRejection]
                            | Inr serialized \<Rightarrow> [Send (MessageReject rid serialized)])
                       | Pending \<Rightarrow> []))
           | Status \<Rightarrow>
               [Send (StatusReply (case binaryVersion c of
                                     None \<Rightarrow> ''<unknown>''
                                   | Some v \<Rightarrow> v))]
           | Stop \<Rightarrow> [CloseWss]
           | Cli args version context \<Rightarrow>
               (case IsLooselyEqual N version (binaryVersion c) of
                  None \<Rightarrow> [UnhandledRejection]
                | Some False \<Rightarrow>
                    (case template_value N version of
                       None \<Rightarrow> [UnhandledRejection]
                     | Some v \<Rightarrow>
                         sendError cap (Err (new_Error cap UsageError
                           (''Mismatched binary versions (cli is '' @ v
                            @ '', whereas the daemon is '' @ template (binaryVersion c)
                            @ '')''))))
                | Some True \<Rightarrow>
                    CliRun args context
                    # map (\<lambda>chunk. Send (Stdout chunk)) (written (run c args context))
                    @ (case exit_code (run c args context) of
                         Fulfilled exitCode \<Rightarrow> [Send (Exit exitCode)]
                       | Rejected err \<Rightarrow> sendError cap err
                       | Pending \<Rightarrow> []))
           | OtherTag \<Rightarrow> []))"

text \<open>
  A session: \<^verbatim>\<open>clientStatus.connected\<close> and the \<^verbatim>\<open>Set\<close> \<^verbatim>\<open>onClientDisconnect\<close> of
  awaited callbacks, the hooks, in insertion order, as the loop of the \<^verbatim>\<open>close\<close>
  listener visits it.
\<close>

record session =
  connected :: bool
  onClientDisconnect :: "callback list"

text \<open>
  The steps of the \<^verbatim>\<open>close\<close> listener. \<open>HookCalled h c\<close>: hook \<open>h\<close> is called while
  \<^verbatim>\<open>clientStatus.connected\<close> is \<open>c\<close>; \<open>HookAwaited h\<close>: its promise has fulfilled and
  the loop goes on; \<open>Resolved\<close>: the final \<^verbatim>\<open>resolve()\<close>; \<open>Aborted e\<close>: an awaited
  hook rejected with \<open>e\<close>, which ends the listener.
\<close>

datatype close_step = HookCalled nat bool | HookAwaited nat | Resolved | Aborted thrown

fun run_hooks :: "session \<Rightarrow> callback list \<Rightarrow> close_step list" where
  "run_hooks s [] = [Resolved]"
| "run_hooks s (fn # fns) =
     HookCalled (cb_id fn) (connected s)
     # (case ends fn of
          Fulfilled u \<Rightarrow> HookAwaited (cb_id fn) # run_hooks s fns
        | Rejected e \<Rightarrow> [Aborted e]
        | Pending \<Rightarrow> [])"

definition session_on_close :: "session \<Rightarrow> session \<times> close_step list" where
  "session_on_close s =
     (let s1 = s\<lparr>connected := False\<rparr>
      in (s1, run_hooks s1 (onClientDisconnect s1)))"

text \<open>The hooks a run of the listener called, with the flag each one saw.\<close>

fun called :: "close_step list \<Rightarrow> (nat \<times> bool) list" where
  "called [] = []"
| "called (HookCalled h c # steps) = (h, c) # called steps"
| "called (st # steps) = called steps"

definition fulfils :: "callback \<Rightarrow> bool" where
  "fulfils fn = (case ends fn of Fulfilled u \<Rightarrow> True | _ \<Rightarrow> False)"

section \<open>Sample inputs\<close>

text \<open>Concrete values for the instances below.\<close>

abbreviation refused :: js_error where
  "refused \<equiv> \<lparr>klass = Error, message = ''connect ECONNREFUSED 127.0.0.1:6532'', stack = None\<rparr>"

abbreviation enoent :: js_error where
  "enoent \<equiv> \<lparr>klass = Error, message = ''spawn node ENOENT'', stack = None\<rparr>"

abbreviation world0 :: "(nat, js_error) outcome list \<Rightarrow> (unit, js_error) outcome list \<Rightarrow> world" where
  "world0 as fs \<equiv> \<lparr>attempts = as, forks = fs, captured = None, trace = []\<rparr>"




abbreviation entry0 :: entry where
  "entry0 \<equiv> \<lparr>onMessage = [], resolve = 10, reject = 11\<rparr>"

abbreviation entry1 :: entry where
  "entry1 \<equiv> \<lparr>onMessage = [\<lparr>cb_id = 30, ends = Fulfilled ()\<rparr>], resolve = 20, reject = 21\<rparr>"

abbreviation late :: SerializedError where
  "late \<equiv> \<lparr>ser_message = ''late'', ser_stack = None, isUsage = False\<rparr>"

abbreviation rejecting :: callback where
  "rejecting \<equiv> \<lparr>cb_id = 1, ends = Rejected (NotErr ''42'')\<rparr>"

abbreviation quiet :: "nat \<Rightarrow> callback" where
  "quiet h \<equiv> \<lparr>cb_id = h, ends = Fulfilled ()\<rparr>"

section \<open>The error codec\<close>



section \<open>Opening a connection\<close>

lemma trace_request: "trace (snd (request w)) = trace w @ [Connect]"
  by (simp add: request_def emit_def split: list.splits)

lemma forks_request: "forks (snd (request w)) = forks w"
  by (simp add: request_def emit_def split: list.splits)

lemma captured_request: "captured (snd (request w)) = captured w"
  by (simp add: request_def emit_def split: list.splits)

lemma trace_spawn: "trace (snd (spawn w)) = trace w @ [Fork]"
  by (simp add: spawn_def emit_def split: list.splits)

lemma open_ws_no_spawn: "open_ws False w = request w"
  by (simp add: open_ws_def split: prod.splits outcome.splits)

text \<open>
  Claim C1, as amended. When the first attempt of \<open>open_ws\<close> is refused and
  \<open>autoSpawn\<close> is set, \<open>spawn\<close> is called; what follows depends on the spawn. If the
  handshake arrives the connect is tried once more and \<open>open_ws\<close> ends as that second
  attempt ends, with no further fork or attempt. If the spawn fails, its error is
  what \<open>open_ws\<close> throws, and if the handshake never arrives \<open>open_ws\<close> never returns; in
  both cases there is no second attempt. When \<open>autoSpawn\<close> is unset the refusal is
  thrown after the one attempt, and an error that is no refusal is thrown after the
  one attempt whatever \<open>autoSpawn\<close> is.
\<close>

theorem open_ws_cases:
  "(fst (request w) = Rejected e \<and> startsWith (message e) ''connect ECONNREFUSED''
      \<and> fst (spawn (snd (request w))) = Fulfilled u
    \<longrightarrow> open_ws True w = request (snd (spawn (snd (request w))))
        \<and> trace (snd (open_ws True w)) = trace w @ [Connect, Fork, Connect])
   \<and> (fst (request w) = Rejected e \<and> startsWith (message e) ''connect ECONNREFUSED''
      \<and> fst (spawn (snd (request w))) = Rejected e2
    \<longrightarrow> fst (open_ws True w) = Rejected e2
        \<and> trace (snd (open_ws True w)) = trace w @ [Connect, Fork])
   \<and> (fst (request w) = Rejected e \<and> startsWith (message e) ''connect ECONNREFUSED''
      \<and> fst (spawn (snd (request w))) = Pending
    \<longrightarrow> fst (open_ws True w) = Pending
        \<and> trace (snd (open_ws True w)) = trace w @ [Connect, Fork])
   \<and> (fst (request w) = Rejected e \<and> startsWith (message e) ''connect ECONNREFUSED''
    \<longrightarrow> fst (open_ws False w) = Rejected e
        \<and> trace (snd (open_ws False w)) = trace w @ [Connect])
   \<and> (fst (request w) = Rejected e \<and> \<not> startsWith (message e) ''connect ECONNREFUSED''
    \<longrightarrow> fst (open_ws autoSpawn w) = Rejected e
        \<and> trace (snd (open_ws autoSpawn w)) = trace w @ [Connect])"
proof -
  obtain r1 w1 where rq: "request w = (r1, w1)" by (cases "request w")
  obtain r2 w2 where sp: "spawn w1 = (r2, w2)" by (cases "spawn w1")
  have t1: "trace w1 = trace w @ [Connect]" using trace_request [of w] rq by simp
  have t2: "trace w2 = trace w @ [Connect, Fork]" using trace_spawn [of w1] sp t1 by simp
  have t3: "trace (snd (request w2)) = trace w @ [Connect, Fork, Connect]"
    using trace_request [of w2] t2 by simp
  show ?thesis
    using rq sp t1 t2 t3 by (auto simp: open_ws_def)
qed

theorem open_ws_cases_witness:
  "fst (request (world0 [Rejected refused, Fulfilled 1] [Fulfilled ()])) = Rejected refused
   \<and> startsWith (message refused) ''connect ECONNREFUSED''
   \<and> open_ws True (world0 [Rejected refused, Fulfilled 1] [Fulfilled ()])
     = request (snd (spawn (snd (request (world0 [Rejected refused, Fulfilled 1] [Fulfilled ()])))))
   \<and> fst (open_ws True (world0 [Rejected refused, Fulfilled 1] [Fulfilled ()])) = Fulfilled 1
   \<and> trace (snd (open_ws True (world0 [Rejected refused, Fulfilled 1] [Fulfilled ()])))
     = [Connect, Fork, Connect]
   \<and> fst (open_ws True (world0 [Rejected refused, Fulfilled 1] [Rejected enoent])) = Rejected enoent
   \<and> trace (snd (open_ws True (world0 [Rejected refused, Fulfilled 1] [Rejected enoent])))
     = [Connect, Fork]
   \<and> fst (open_ws True (world0 [Rejected refused, Fulfilled 1] [])) = Pending
   \<and> fst (open_ws False (world0 [Rejected refused, Fulfilled 1] [Fulfilled ()])) = Rejected refused
   \<and> trace (snd (open_ws False (world0 [Rejected refused, Fulfilled 1] [Fulfilled ()]))) = [Connect]
   \<and> fst (open_ws True (world0 [Rejected enoent, Fulfilled 1] [Fulfilled ()])) = Rejected enoent
   \<and> trace (snd (open_ws True (world0 [Rejected enoent, Fulfilled 1] [Fulfilled ()]))) = [Connect]"
  using open_ws_cases [of "world0 [Rejected refused, Fulfilled 1] [Fulfilled ()]" refused "()" enoent True]
    open_ws_cases [of "world0 [Rejected refused, Fulfilled 1] [Rejected enoent]" refused "()" enoent True]
    open_ws_cases [of "world0 [Rejected refused, Fulfilled 1] []" refused "()" enoent True]
    open_ws_cases [of "world0 [Rejected enoent, Fulfilled 1] [Fulfilled ()]" enoent "()" enoent True]
  by (simp add: request_def spawn_def emit_def startsWith_def)

text \<open>
  Claim C1 as it was stated fails where the spawn fails. The first attempt is refused,
  \<open>autoSpawn\<close> is set, a second attempt would succeed, but the fork ends with the
  child's \<^verbatim>\<open>error\<close> event: \<open>open_ws\<close> throws that error after one connection attempt
  and one fork, and the connect is not tried again.
\<close>

theorem open_ws_spawn_failure_counterexample:
  "fst (request (world0 [Rejected refused, Fulfilled 1] [Rejected enoent])) = Rejected refused
   \<and> startsWith (message refused) ''connect ECONNREFUSED''
   \<and> fst (open_ws True (world0 [Rejected refused, Fulfilled 1] [Rejected enoent])) = Rejected enoent
   \<and> trace (snd (open_ws True (world0 [Rejected refused, Fulfilled 1] [Rejected enoent])))
     = [Connect, Fork]
   \<and> count_list (trace (snd (open_ws True (world0 [Rejected refused, Fulfilled 1] [Rejected enoent]))))
       Connect = 1"
  by (simp add: open_ws_def request_def spawn_def emit_def startsWith_def)

section \<open>The status query\<close>

lemma first_status_None: "first_status replies = None \<longleftrightarrow> (\<forall>v. StatusReply v \<notin> set replies)"
  by (induction replies rule: first_status.induct) auto

text \<open>
  Claim C6. \<open>status\<close> never forks, whatever happens: the events it adds hold no
  \<open>Fork\<close>, no fork outcome is used up, and its first event is the one connection
  attempt. A refused attempt gives \<^verbatim>\<open>null\<close> (\<open>Fulfilled None\<close>); any other connection
  error is thrown as it is. Once connected, if no \<^verbatim>\<open>status\<close> frame arrives before the
  timer, the call throws the error \<^verbatim>\<open>Timeout reached\<close>, which is not the \<^verbatim>\<open>null\<close>
  result, after sending the query and closing the socket.
\<close>

theorem status_cases:
  "Fork \<notin> set (drop (length (trace w)) (trace (snd (status replies w))))
   \<and> forks (snd (status replies w)) = forks w
   \<and> take (Suc (length (trace w))) (trace (snd (status replies w))) = trace w @ [Connect]
   \<and> (fst (request w) = Rejected e \<and> startsWith (message e) ''connect ECONNREFUSED''
      \<longrightarrow> status replies w = (Fulfilled None, snd (request w)))
   \<and> (fst (request w) = Rejected e \<and> \<not> startsWith (message e) ''connect ECONNREFUSED''
      \<longrightarrow> status replies w = (Rejected e, snd (request w)))
   \<and> (fst (request w) = Fulfilled ws \<and> (\<forall>v. StatusReply v \<notin> set replies)
      \<longrightarrow> fst (status replies w) = Rejected (new_Error (captured w) Error ''Timeout reached'')
        \<and> fst (status replies w) \<noteq> Fulfilled None
        \<and> trace (snd (status replies w)) = trace w @ [Connect, WsSend ws Status, WsClose ws])"
proof -
  obtain r1 w1 where rq: "request w = (r1, w1)" by (cases "request w")
  have t1: "trace w1 = trace w @ [Connect]" using trace_request [of w] rq by simp
  have f1: "forks w1 = forks w" using forks_request [of w] rq by simp
  have c1: "captured w1 = captured w" using captured_request [of w] rq by simp
  have n: "(\<forall>v. StatusReply v \<notin> set replies) \<Longrightarrow> first_status replies = None"
    by (simp add: first_status_None)
  show ?thesis
    using rq t1 f1 c1 n
    by (cases r1) (auto simp: status_def open_ws_no_spawn emit_def Let_def split: option.splits)
qed

theorem status_cases_witness:
  "fst (request (world0 [Rejected refused] [])) = Rejected refused
   \<and> status [] (world0 [Rejected refused] []) = (Fulfilled None, snd (request (world0 [Rejected refused] [])))
   \<and> trace (snd (status [] (world0 [Rejected refused] []))) = [Connect]
   \<and> status [] (world0 [Rejected enoent] []) = (Rejected enoent, snd (request (world0 [Rejected enoent] [])))
   \<and> fst (request (world0 [Fulfilled 4] [])) = Fulfilled 4
   \<and> fst (status [Stdout ''aGk=''] (world0 [Fulfilled 4] []))
     = Rejected \<lparr>klass = Error, message = ''Timeout reached'', stack = None\<rparr>
   \<and> trace (snd (status [Stdout ''aGk=''] (world0 [Fulfilled 4] [])))
     = [Connect, WsSend 4 Status, WsClose 4]"
  using status_cases [of "world0 [Rejected refused] []" "[]" refused 4]
    status_cases [of "world0 [Rejected enoent] []" "[]" enoent 4]
    status_cases [of "world0 [Fulfilled 4] []" "[Stdout ''aGk='']" refused 4]
  by (simp add: request_def emit_def startsWith_def new_Error_def)

section \<open>Restarting from inside the worker\<close>

lemma wss_close_guard: "wss_close (d\<lparr>rebootInProgress := b\<rparr>) w = wss_close d w"
  by (simp add: wss_close_def)

lemma trace_wss_close:
  "trace (wss_close d w) = trace w @ (case wss d of None \<Rightarrow> [] | Some srv \<Rightarrow> [WssClose srv])"
  by (simp add: wss_close_def emit_def split: option.splits)

lemma restart_first:
  "restart True (d\<lparr>rebootInProgress := False\<rparr>) w
     = (fst (spawn (wss_close d w)), d\<lparr>rebootInProgress := True\<rparr>, snd (spawn (wss_close d w)))"
  by (simp add: restart_def Let_def wss_close_guard split: prod.splits)

lemma restart_later:
  "restart True (d\<lparr>rebootInProgress := True\<rparr>) w = (Fulfilled (), d\<lparr>rebootInProgress := True\<rparr>, w)"
  by (simp add: restart_def)

lemma restarts_later:
  "restarts n True (d\<lparr>rebootInProgress := True\<rparr>) w = (d\<lparr>rebootInProgress := True\<rparr>, w)"
  by (induction n) (simp_all add: restart_later)

lemma restarts_first:
  "restarts (Suc n) True (d\<lparr>rebootInProgress := False\<rparr>) w
     = (d\<lparr>rebootInProgress := True\<rparr>, snd (spawn (wss_close d w)))"
  using restarts_later [of n d "snd (spawn (wss_close d w))"]
  by (simp add: restart_first)

lemma count_fork_spawn:
  "count_list (trace (snd (spawn (wss_close d w)))) Fork = Suc (count_list (trace w) Fork)"
  by (simp add: trace_spawn trace_wss_close split: option.splits)

lemma restarts_fork_bound:
  "count_list (trace (snd (restarts n True d w))) Fork \<le> Suc (count_list (trace w) Fork)"
proof (cases "rebootInProgress d")
  case True
  then have "d = d\<lparr>rebootInProgress := True\<rparr>" by simp
  then have "restarts n True d w = (d, w)" using restarts_later [of n d w] by simp
  then show ?thesis by simp
next
  case False
  then have d: "d = d\<lparr>rebootInProgress := False\<rparr>" by simp
  show ?thesis
  proof (cases n)
    case 0
    then show ?thesis by simp
  next
    case (Suc k)
    have "restarts (Suc k) True d w = (d\<lparr>rebootInProgress := True\<rparr>, snd (spawn (wss_close d w)))"
      using restarts_first [of k d w] d by simp
    then show ?thesis using Suc by (simp add: count_fork_spawn)
  qed
qed

lemma restarts_guard_set: "rebootInProgress (fst (restarts (Suc n) True d w))"
proof (cases "rebootInProgress d")
  case True
  then have "d = d\<lparr>rebootInProgress := True\<rparr>" by simp
  then have "restarts (Suc n) True d w = (d, w)" using restarts_later [of "Suc n" d w] by simp
  then show ?thesis using True by simp
next
  case False
  then have d: "d = d\<lparr>rebootInProgress := False\<rparr>" by simp
  have "restarts (Suc n) True d w = (d\<lparr>rebootInProgress := True\<rparr>, snd (spawn (wss_close d w)))"
    using restarts_first [of n d w] d by simp
  then show ?thesis by simp
qed

text \<open>
  Claim C7. In a worker whose guard is unset, the first \<^verbatim>\<open>restart()\<close> leaves the guard
  set whatever the awaited spawn does, and its events are the close of the listening
  server, when the worker has one, followed by exactly one fork. Where the handshake
  never arrives the call stays suspended at its only \<^verbatim>\<open>await\<close>, and the guard is set
  all the same: it is written before the call suspends. A \<^verbatim>\<open>restart()\<close> that
  finds the guard set changes nothing and emits nothing. Hence any number of calls
  after the first leave the state the first call left, the guard is set after any
  non-empty run of calls and stays set, and a run of calls adds at most one fork.
\<close>

theorem restart_guard_one_successor:
  "restart True (d\<lparr>rebootInProgress := False\<rparr>) w
     = (fst (spawn (wss_close d w)), d\<lparr>rebootInProgress := True\<rparr>, snd (spawn (wss_close d w)))
   \<and> trace (snd (spawn (wss_close d w)))
     = trace w @ (case wss d of None \<Rightarrow> [] | Some srv \<Rightarrow> [WssClose srv]) @ [Fork]
   \<and> fst (restart True (d\<lparr>rebootInProgress := False\<rparr>) (w\<lparr>forks := []\<rparr>)) = Pending
   \<and> rebootInProgress (fst (snd (restart True (d\<lparr>rebootInProgress := False\<rparr>) (w\<lparr>forks := []\<rparr>))))
   \<and> restart True (d\<lparr>rebootInProgress := True\<rparr>) w
     = (Fulfilled (), d\<lparr>rebootInProgress := True\<rparr>, w)
   \<and> restarts (Suc n) True (d\<lparr>rebootInProgress := False\<rparr>) w
     = (d\<lparr>rebootInProgress := True\<rparr>, snd (spawn (wss_close d w)))
   \<and> restarts n True (d\<lparr>rebootInProgress := True\<rparr>) w = (d\<lparr>rebootInProgress := True\<rparr>, w)
   \<and> rebootInProgress (fst (restarts (Suc n) True d w))
   \<and> count_list (trace (snd (restarts n True d w))) Fork \<le> Suc (count_list (trace w) Fork)"
proof -
  have "forks (wss_close d (w\<lparr>forks := []\<rparr>)) = []"
    by (simp add: wss_close_def emit_def split: option.splits)
  then have "fst (spawn (wss_close d (w\<lparr>forks := []\<rparr>))) = Pending"
    by (simp add: spawn_def)
  then show ?thesis
    using restart_first restart_later restarts_first restarts_later restarts_guard_set
      restarts_fork_bound
    by (simp add: trace_spawn trace_wss_close)
qed

section \<open>The worker's session listeners\<close>

text \<open>
  Claim C9. The reply to a \<^verbatim>\<open>status\<close> frame carries the string \<^verbatim>\<open><unknown>\<close> when
  the CLI declares no binary version, and the declared string when it declares one.
\<close>

theorem status_reply_version:
  "session_on_message cap N (c\<lparr>binaryVersion := None\<rparr>) handler (Json Status)
     = [Send (StatusReply ''<unknown>'')]
   \<and> session_on_message cap N (c\<lparr>binaryVersion := Some v\<rparr>) handler (Json Status)
     = [Send (StatusReply v)]"
  by (simp add: session_on_message_def)

text \<open>
  Claim C10. On a frame that is not valid JSON the listener does one thing: it closes
  the socket of that session. It sends no reply, calls neither the custom handler nor
  \<^verbatim>\<open>cli.run\<close>, leaves the listening server open and throws nothing.
\<close>

theorem malformed_frame_closes:
  "session_on_message cap N c handler Malformed = [CloseWs]
   \<and> (\<forall>reply. Send reply \<notin> set (session_on_message cap N c handler Malformed))
   \<and> (\<forall>data. CallOnMessage data \<notin> set (session_on_message cap N c handler Malformed))
   \<and> (\<forall>args context. CliRun args context \<notin> set (session_on_message cap N c handler Malformed))
   \<and> CloseWss \<notin> set (session_on_message cap N c handler Malformed)
   \<and> UnhandledRejection \<notin> set (session_on_message cap N c handler Malformed)"
  by (simp add: session_on_message_def)







lemma run_hooks_called:
  "called (run_hooks s hs)
     = map (\<lambda>fn. (cb_id fn, connected s)) (takeWhile fulfils hs @ take 1 (dropWhile fulfils hs))"
  by (induction hs) (auto simp: fulfils_def split: outcome.splits)

lemma run_hooks_all:
  "list_all fulfils hs \<Longrightarrow>
     run_hooks s hs
       = concat (map (\<lambda>fn. [HookCalled (cb_id fn) (connected s), HookAwaited (cb_id fn)]) hs)
         @ [Resolved]"
  by (induction hs) (auto simp: fulfils_def split: outcome.splits)

lemma prefix_distinct:
  assumes "distinct (map f hs)"
  shows "distinct (map f (takeWhile P hs @ take 1 (dropWhile P hs)))"
proof -
  have "takeWhile P hs @ take 1 (dropWhile P hs) = take (Suc (length (takeWhile P hs))) hs"
    by (induction hs) auto
  then show ?thesis using assms by (simp add: distinct_take take_map [symmetric])
qed

text \<open>
  Claim C8, as amended. The \<^verbatim>\<open>close\<close> listener sets \<^verbatim>\<open>connected\<close> to false first, so
  every hook it calls sees the flag false. It calls the hooks in insertion order, each
  after the one before has fulfilled, and stops at the first hook whose promise
  rejects or never settles: the hooks called are the leading fulfilling hooks and the
  one after them. No hook is called twice. When every hook fulfils, every hook is
  called, each followed by its completion, and the listener ends with \<^verbatim>\<open>resolve()\<close>.
\<close>

theorem session_close_hooks:
  "connected (fst (session_on_close s)) = False
   \<and> called (snd (session_on_close s))
     = map (\<lambda>fn. (cb_id fn, False))
         (takeWhile fulfils (onClientDisconnect s) @ take 1 (dropWhile fulfils (onClientDisconnect s)))
   \<and> (list_all fulfils (onClientDisconnect s) \<longrightarrow>
        snd (session_on_close s)
          = concat (map (\<lambda>fn. [HookCalled (cb_id fn) False, HookAwaited (cb_id fn)])
                      (onClientDisconnect s))
            @ [Resolved])
   \<and> (distinct (map cb_id (onClientDisconnect s)) \<longrightarrow>
        distinct (map fst (called (snd (session_on_close s)))))"
proof -
  let ?hs = "onClientDisconnect s"
  have d: "distinct (map cb_id ?hs) \<Longrightarrow>
      distinct (map cb_id (takeWhile fulfils ?hs @ take 1 (dropWhile fulfils ?hs)))"
    by (rule prefix_distinct)
  show ?thesis
    using d by (simp add: session_on_close_def Let_def run_hooks_called run_hooks_all comp_def)
qed

theorem session_close_hooks_witness:
  "list_all fulfils [quiet 1, quiet 2]
   \<and> distinct (map cb_id [quiet 1, quiet 2])
   \<and> snd (session_on_close \<lparr>connected = True, onClientDisconnect = [quiet 1, quiet 2]\<rparr>)
     = [HookCalled 1 False, HookAwaited 1, HookCalled 2 False, HookAwaited 2, Resolved]
   \<and> distinct (map fst (called (snd (session_on_close
        \<lparr>connected = True, onClientDisconnect = [quiet 1, quiet 2]\<rparr>))))"
  using session_close_hooks [of "\<lparr>connected = True, onClientDisconnect = [quiet 1, quiet 2]\<rparr>"]
  by (simp add: fulfils_def)

text \<open>
  Claim C8 as it was stated fails where a hook rejects. Of two registered hooks the
  first rejects: the listener stops there, and the second hook is never called.
\<close>

theorem session_close_counterexample:
  "snd (session_on_close \<lparr>connected = True, onClientDisconnect = [rejecting, quiet 2]\<rparr>)
     = [HookCalled 1 False, Aborted (NotErr ''42'')]
   \<and> count_list (map fst (called (snd (session_on_close
        \<lparr>connected = True, onClientDisconnect = [rejecting, quiet 2]\<rparr>)))) 2 = 0"
  by (simp add: session_on_close_def)

section \<open>The table of pending requests\<close>

text \<open>
  Claim C3, as amended. A \<^verbatim>\<open>close\<close> (or a late \<^verbatim>\<open>error\<close>) on a client socket leaves
  the table as it is and calls nothing: pending entries stay pending, neither resolved
  nor rejected. The only events that remove a pending entry are a \<^verbatim>\<open>message/resolve\<close>
  or a \<^verbatim>\<open>message/reject\<close> frame that carries its id.
\<close>

theorem client_close_keeps_pending:
  "client_ws_event cap m OnClose = (m, [])
   \<and> client_ws_event cap m (OnError err) = (m, [])
   \<and> (m rid = Some e \<and> fst (client_ws_event cap m ev) rid = None \<longrightarrow>
        (\<exists>data. ev = OnMessage (MessageResolve rid data))
        \<or> (\<exists>error. ev = OnMessage (MessageReject rid error)))"
  by (auto simp: client_ws_event_def request_on_message_def
      split: ws_event.splits server_msg.splits option.splits if_splits)

theorem client_close_keeps_pending_witness:
  "(Map.empty(7 \<mapsto> entry0)) (7::nat) = Some entry0
   \<and> fst (client_ws_event None (Map.empty(7 \<mapsto> entry0)) (OnMessage (MessageResolve 7 None))) 7 = None
   \<and> client_ws_event None (Map.empty(7 \<mapsto> entry0)) OnClose = (Map.empty(7 \<mapsto> entry0), [])"
  using client_close_keeps_pending [of None "Map.empty(7 \<mapsto> entry0)" enoent 7 entry0
      "OnMessage (MessageResolve 7 None)"]
  by (simp add: client_ws_event_def request_on_message_def)

text \<open>
  Claim C3 as it was stated fails on any table with a pending entry. With request 7
  pending, the \<^verbatim>\<open>close\<close> of the socket leaves entry 7 in the table and calls no
  callback, so nothing is rejected.
\<close>

theorem client_close_counterexample:
  "fst (client_ws_event None (Map.empty(7 \<mapsto> entry0)) OnClose) 7 = Some entry0
   \<and> snd (client_ws_event None (Map.empty(7 \<mapsto> entry0)) OnClose) = []"
  by (simp add: client_ws_event_def)

lemma allocate_sound:
  assumes "allocate m rng k = Some rid"
  shows "m rid = None"
proof (rule allocate.raw_induct [where P = "\<lambda>m rng k rid. m rid = None", OF _ assms])
  fix f m rng k y
  assume ih: "\<And>m rng k y. f m rng k = Some y \<Longrightarrow> m y = None"
    and step: "(let rid = unat (rng k) in if m rid \<noteq> None then f m rng (Suc k) else Some rid) = Some y"
  show "m y = None"
  proof (cases "m (unat (rng k)) = None")
    case True
    with step show ?thesis by (simp add: Let_def)
  next
    case False
    with step have "f m rng (Suc k) = Some y" by (simp add: Let_def)
    then show ?thesis by (rule ih)
  qed
qed

lemma allocate_returns:
  "m (unat (rng (k + n))) = None \<Longrightarrow> \<exists>rid. allocate m rng k = Some rid"
proof (induction n arbitrary: k)
  case 0
  then show ?case by (subst allocate.simps) (simp add: Let_def)
next
  case (Suc n)
  then have "\<exists>rid. allocate m rng (Suc k) = Some rid" by simp
  then show ?case by (subst allocate.simps) (simp add: Let_def)
qed

text \<open>
  One socket event on a table that holds no entry under two ids: the table stays so,
  no entry appears, and an entry is settled at most once, namely when it leaves.
\<close>

lemma run_stream_settles: "filter (settles e) (run_stream data fns) = []"
  by (induction fns) (simp_all split: outcome.splits)

lemma event_step:
  assumes "client_ws_event cap m ev = (m1, acts)" "inj_on m (dom m)"
  shows "inj_on m1 (dom m1)" "ran m1 \<subseteq> ran m"
    "length (filter (settles e) acts) \<le> (if e \<in> ran m \<and> e \<notin> ran m1 then 1 else 0)"
  using assms
  by (auto simp: client_ws_event_def request_on_message_def inj_on_def ran_def dom_def
      run_stream_settles
      split: ws_event.splits server_msg.splits option.splits if_splits)

lemma settle_bound:
  assumes "distinct (registered ops)" "set (registered ops) \<inter> ran m = {}" "inj_on m (dom m)"
  shows "length (filter (settles e) (snd (run_ops cap m ops)))
           \<le> (if e \<in> ran m \<or> e \<in> set (registered ops) then 1 else 0)"
  using assms
proof (induction ops arbitrary: m)
  case Nil
  then show ?case by simp
next
  case (Cons op ops)
  show ?case
  proof (cases op)
    case (Register ws rid e' data)
    let ?m = "m(rid \<mapsto> e')"
    have fresh: "e' \<notin> ran m" "e' \<notin> set (registered ops)" "distinct (registered ops)"
      using Cons.prems Register by auto
    have r: "ran ?m \<subseteq> insert e' (ran m)" by (auto simp: ran_def)
    have d: "set (registered ops) \<inter> ran ?m = {}" using r fresh Cons.prems Register by auto
    have u: "inj_on ?m (dom ?m)"
      using Cons.prems(3) fresh(1) by (auto simp: inj_on_def ran_def dom_def split: if_splits)
    have "length (filter (settles e) (snd (run_ops cap ?m ops)))
            \<le> (if e \<in> ran ?m \<or> e \<in> set (registered ops) then 1 else 0)"
      by (rule Cons.IH [OF fresh(3) d u])
    also have "\<dots> \<le> (if e \<in> ran m \<or> e \<in> set (registered (op # ops)) then 1 else 0)"
      using r Register by auto
    finally show ?thesis using Register by (simp add: send_then_def)
  next
    case (Event ev)
    obtain m1 acts where st: "client_ws_event cap m ev = (m1, acts)"
      by (cases "client_ws_event cap m ev")
    obtain m2 acts2 where rest: "run_ops cap m1 ops = (m2, acts2)"
      by (cases "run_ops cap m1 ops")
    note es = event_step [OF st Cons.prems(3)]
    have d: "set (registered ops) \<inter> ran m1 = {}" "distinct (registered ops)"
      using es(2) Cons.prems Event by auto
    have "length (filter (settles e) acts2)
            \<le> (if e \<in> ran m1 \<or> e \<in> set (registered ops) then 1 else 0)"
      using Cons.IH [OF d(2) d(1) es(1)] rest by simp
    moreover have "length (filter (settles e) acts) \<le> (if e \<in> ran m \<and> e \<notin> ran m1 then 1 else 0)"
      by (rule es(3))
    moreover have "e \<in> ran m \<Longrightarrow> e \<notin> set (registered ops)"
      using Cons.prems Event by auto
    ultimately show ?thesis
      using Event st rest es(2) by (auto split: if_splits)
  qed
qed

text \<open>
  Claim C4. A \<^verbatim>\<open>message/resolve\<close> or \<^verbatim>\<open>message/reject\<close> frame for a pending id first
  deletes the entry and then calls exactly one of its two callbacks, the one the frame
  names; for an id that is not pending the frame does nothing. Over any history of
  registrations and socket events that starts from the empty table, where each
  registration brings callbacks of its own, an entry is settled at most once, so
  never both resolved and rejected. The id loop returns only an id that is not in the
  table, and it does return one as soon as some draw is not in the table.
\<close>

theorem correlation_table_once:
  "(m rid = Some e \<longrightarrow>
      request_on_message cap m (MessageResolve rid data)
        = (m(rid := None), [MapDelete rid, CallResolve e data])
      \<and> request_on_message cap m (MessageReject rid error)
        = (m(rid := None), [MapDelete rid, CallReject e (serializableToError cap error)]))
   \<and> (m rid = None \<longrightarrow>
        request_on_message cap m (MessageResolve rid data) = (m, [])
        \<and> request_on_message cap m (MessageReject rid error) = (m, []))
   \<and> (distinct (registered ops) \<longrightarrow>
        length (filter (settles e) (snd (run_ops cap Map.empty ops))) \<le> 1)
   \<and> (allocate m rng k = Some rid \<longrightarrow> m rid = None)
   \<and> (m (unat (rng (k + n))) = None \<longrightarrow> (\<exists>fresh. allocate m rng k = Some fresh \<and> m fresh = None))"
proof -
  have a: "distinct (registered ops) \<Longrightarrow>
      length (filter (settles e) (snd (run_ops cap Map.empty ops))) \<le> 1"
    using settle_bound [of ops Map.empty e cap] by (simp split: if_splits)
  have b: "allocate m rng k = Some rid \<Longrightarrow> m rid = None"
    by (rule allocate_sound)
  have c: "m (unat (rng (k + n))) = None \<Longrightarrow> \<exists>fresh. allocate m rng k = Some fresh \<and> m fresh = None"
    using allocate_returns [of m rng k n] allocate_sound [of m rng k] by auto
  show ?thesis
    using a b c by (simp add: request_on_message_def)
qed

theorem correlation_table_once_witness:
  "request_on_message None (Map.empty(7 \<mapsto> entry0)) (MessageResolve 7 (Some ''1''))
     = (Map.empty, [MapDelete 7, CallResolve entry0 (Some ''1'')])
   \<and> request_on_message None Map.empty (MessageResolve 7 (Some ''1'')) = (Map.empty, [])
   \<and> distinct (registered
        [Register 1 7 entry0 None, Event (OnMessage (MessageResolve 7 (Some ''1''))),
         Event (OnMessage (MessageReject 7 late)),
         Register 2 7 entry1 None, Event (OnMessage (MessageResolve 7 None))])
   \<and> length (filter (settles entry0) (snd (run_ops None Map.empty
        [Register 1 7 entry0 None, Event (OnMessage (MessageResolve 7 (Some ''1''))),
         Event (OnMessage (MessageReject 7 late)),
         Register 2 7 entry1 None, Event (OnMessage (MessageResolve 7 None))]))) \<le> 1
   \<and> allocate (Map.empty(7 \<mapsto> entry0)) (\<lambda>k. if k = 0 then 7 else 9) 0 = Some 9
   \<and> (Map.empty(7 \<mapsto> entry0)) (9::nat) = None"
proof -
  let ?m = "Map.empty(7 \<mapsto> entry0)"
  let ?ops = "[Register 1 7 entry0 None, Event (OnMessage (MessageResolve 7 (Some ''1''))),
         Event (OnMessage (MessageReject 7 late)),
         Register 2 7 entry1 None, Event (OnMessage (MessageResolve 7 None))]"
  let ?rng = "\<lambda>k::nat. if k = 0 then (7 :: 32 word) else 9"
  have al: "allocate ?m ?rng 0 = Some 9"
    by (subst allocate.simps, simp add: Let_def, subst allocate.simps, simp add: Let_def)
  note t1 = correlation_table_once [of ?m 7 entry0 None "Some ''1''" late ?ops ?rng 0 1]
  note t2 = correlation_table_once [of Map.empty 7 entry0 None "Some ''1''" late ?ops ?rng 0 0]
  note t3 = correlation_table_once [of ?m 9 entry0 None "Some ''1''" late ?ops ?rng 0 1]
  have h1: "?m 7 = Some entry0" by simp
  have h2: "Map.empty 7 = (None :: entry option)" by simp
  have h3: "distinct (registered ?ops)" by simp
  show ?thesis
    using t1 t2 t3 h1 h2 h3 al by (simp add: fun_upd_idem)
qed

end
